theory Spec2Isabelle
  imports Main "HOL-Library.Sublist"
begin

section \<open>OctoScreen, package ui: the connection reconciler and the panel navigator\<close>

text \<open>
  A shallow embedding of \<^verbatim>\<open>src/ui/ui.go\<close>. The \<^verbatim>\<open>UI\<close> struct is a record;
  every method that mutates it takes the record and returns the updated one. Calls into the
  toolkit, the printer client, the logger and the service manager are recorded, in program
  order, in an event trace kept next to the struct's fields. A nil dereference, which
  panics in Go, is the \<open>Inl\<close> branch of a sum.
\<close>

subsection \<open>Package variables (ui.go, lines 16-21 and 116)\<close>

definition WindowHeight :: int where
  "WindowHeight = 480"

definition WindowWidth :: int where
  "WindowWidth = 800"

text \<open>A \<^verbatim>\<open>time.Time\<close> is a count of nanoseconds, a \<^verbatim>\<open>time.Duration\<close> a signed
  64-bit count of nanoseconds.\<close>

type_synonym time = int
type_synonym duration = int

definition Second :: duration where
  "Second = 1000000000"

definition errMercyPeriod :: duration where
  "errMercyPeriod = Second * 30"

definition maxDuration :: duration where
  "maxDuration = 2 ^ 63 - 1"

definition minDuration :: duration where
  "minDuration = - (2 ^ 63)"

text \<open>\<^verbatim>\<open>time.Since(t)\<close> is \<^verbatim>\<open>time.Now().Sub(t)\<close>; \<^verbatim>\<open>Sub\<close> saturates at the
  ends of the 64-bit range. The reading of the clock is the first argument.\<close>

definition Since :: "time \<Rightarrow> time \<Rightarrow> duration" where
  "Since now t0 =
     (let d = now - t0
      in if d > maxDuration then maxDuration
         else if d < minDuration then minDuration
         else d)"

subsection \<open>Data\<close>

text \<open>A Go \<^verbatim>\<open>error\<close> value is represented by the text its \<^verbatim>\<open>Error()\<close> method
  returns, which is all that ui.go reads of it.\<close>

type_synonym go_error = string

datatype panic = NilPointerDereference

text \<open>\<^verbatim>\<open>octoprint.Client\<close>: the two fields \<^verbatim>\<open>errToUser\<close> reads.\<close>

record Client =
  Endpoint :: string
  APIKey :: string

text \<open>
  \<^verbatim>\<open>octoprint.ConnectionState\<close> is declared by the go-octoprint library, which is not
  part of this repository. ui.go asks a state five yes/no questions and converts it to a
  string; a state is the record of these six observations.
\<close>

record ConnectionState =
  label :: string
  IsOperational :: bool
  IsPrinting :: bool
  IsError :: bool
  IsOffline :: bool
  IsConnecting :: bool

text \<open>
  Modelled from the spec: the \<^verbatim>\<open>Panel\<close> interface and the panel constructors
  (\<^verbatim>\<open>NewSplashPanel\<close>, \<^verbatim>\<open>IdleStatusPanel\<close>, \<^verbatim>\<open>PrintStatusPanel\<close>) are declared in
  files of the repository other than ui.go. Following sections 3 and 6 of the
  specification, a panel exposes its root layout node (\<^verbatim>\<open>Grid()\<close>) and its parent panel
  or none (\<^verbatim>\<open>Parent()\<close>), and can be shown and hidden. Panels are objects with identity:
  a panel value is a reference into a store of panel objects, and \<open>next_ref\<close> is the first
  reference not yet allocated.
\<close>

type_synonym panel_ref = nat
type_synonym widget = nat

datatype panel_kind = SplashPanel | IdleStatus | PrintStatus | OtherPanel

record panel_obj =
  kind :: panel_kind
  Grid :: widget
  Parent :: "panel_ref option"

text \<open>The calls ui.go makes on its collaborators, as they appear in the trace.\<close>

datatype event =
    SdNotify string
  | LogError string
  | LogInfo string
  | LogDebug string
  | ConnectionRequest
  | ConnectRequest
  | SetText string
  | GridRemove widget
  | PanelHide panel_ref
  | PanelShow panel_ref
  | GridAttach widget
  | GridShowAll

text \<open>
  The \<^verbatim>\<open>UI\<close> struct (lines 28-47). \<open>splash\<close> is the field \<^verbatim>\<open>s\<close>, \<open>Label\<close> the text
  of \<^verbatim>\<open>s.Label\<close>, \<open>started\<close> the field \<^verbatim>\<open>t\<close>. \<open>State\<close> is \<open>None\<close> while it holds
  the zero value it has before the first successful query. \<open>slot\<close> is the list of children
  of the grid \<^verbatim>\<open>g\<close>, the display slot. \<open>panels\<close> and \<open>next_ref\<close> are the store of
  panel objects, \<open>events\<close> the trace.
\<close>

record UI =
  Current :: "panel_ref option"
  Printer :: Client
  State :: "ConnectionState option"
  UIState :: string
  splash :: panel_ref
  Label :: string
  started :: time
  width :: int
  height :: int
  scaleFactor :: int
  slot :: "widget list"
  panels :: "panel_ref \<Rightarrow> panel_obj"
  next_ref :: panel_ref
  events :: "event list"

definition emit :: "event list \<Rightarrow> UI \<Rightarrow> UI" where
  "emit es ui = ui\<lparr>events := events ui @ es\<rparr>"

text \<open>\<^verbatim>\<open>ui.s.Label.SetText(m)\<close>.\<close>

definition Label_SetText :: "string \<Rightarrow> UI \<Rightarrow> UI" where
  "Label_SetText m ui = emit [SetText m] (ui\<lparr>Label := m\<rparr>)"

text \<open>
  Modelled from the spec: a panel constructor, whose code is not in ui.go, allocates a
  new panel object with a layout node of its own. The status panels and the splash panel
  are top-level screens, with no parent.
\<close>

definition NewPanel :: "panel_kind \<Rightarrow> UI \<Rightarrow> panel_ref \<times> UI" where
  "NewPanel k ui =
     (let r = next_ref ui
      in (r, ui\<lparr>panels := (panels ui)(r := \<lparr>kind = k, Grid = r, Parent = None\<rparr>),
                next_ref := Suc r\<rparr>))"

definition IdleStatusPanel :: "UI \<Rightarrow> panel_ref \<times> UI" where
  "IdleStatusPanel ui = NewPanel IdleStatus ui"

definition PrintStatusPanel :: "UI \<Rightarrow> panel_ref \<times> UI" where
  "PrintStatusPanel ui = NewPanel PrintStatus ui"

definition NewSplashPanel :: "UI \<Rightarrow> panel_ref \<times> UI" where
  "NewSplashPanel ui = NewPanel SplashPanel ui"

subsection \<open>sdNotify (lines 169-176)\<close>

text \<open>The first argument is the error \<^verbatim>\<open>daemon.SdNotify\<close> returns, if any.\<close>

definition sdNotify :: "go_error option \<Rightarrow> string \<Rightarrow> UI \<Rightarrow> UI" where
  "sdNotify r m ui =
     (case r of
        None \<Rightarrow> emit [SdNotify m] ui
      | Some err \<Rightarrow> emit [SdNotify m, LogError (''Error sending notification: '' @ err)] ui)"

subsection \<open>errToUser (lines 198-208)\<close>

text \<open>\<^verbatim>\<open>strings.Contains(s, sub)\<close>: \<open>sub\<close> occurs in \<open>s\<close> as a contiguous run.\<close>

fun Contains :: "string \<Rightarrow> string \<Rightarrow> bool" where
  "Contains [] sub = (sub = [])"
| "Contains (c # cs) sub = (prefix sub (c # cs) \<or> Contains cs sub)"

text \<open>The verb \<^verbatim>\<open>%v\<close> applied to a bool.\<close>

definition fmt_bool :: "bool \<Rightarrow> string" where
  "fmt_bool b = (if b then ''true'' else ''false'')"

text \<open>
  The verb \<^verbatim>\<open>%q\<close> applied to a string is \<^verbatim>\<open>strconv.Quote\<close> of the Go standard
  library. It is the parameter \<open>quote\<close> of \<open>errToUser\<close> and of everything that calls it.
\<close>

definition errToUser :: "(string \<Rightarrow> string) \<Rightarrow> UI \<Rightarrow> go_error \<Rightarrow> string" where
  "errToUser quote ui err =
     (let text = err
      in if Contains text ''connection refused''
         then ''Unable to connect to '' @ quote (Endpoint (Printer ui)) @
              '' (Key: '' @ fmt_bool (APIKey (Printer ui) \<noteq> '''') @
              ''), \<newline>maybe OctoPrint not running?''
         else ''Unexpected error: '' @ err)"

text \<open>
  An instance of the parameter, for evaluating \<open>errToUser\<close> on concrete input. It agrees
  with \<^verbatim>\<open>strconv.Quote\<close> on strings of printable ASCII characters: the string between
  double quotes, with a backslash before each double quote and each backslash.
\<close>

definition quote_char :: "char \<Rightarrow> string" where
  "quote_char c =
     (if c = CHR 0x22 then [CHR 0x5C, CHR 0x22]
      else if c = CHR 0x5C then [CHR 0x5C, CHR 0x5C]
      else [c])"

definition quote_printable :: "string \<Rightarrow> string" where
  "quote_printable s = CHR 0x22 # concat (map quote_char s) @ [CHR 0x22]"

subsection \<open>Add, Remove, GoHistory (lines 178-196)\<close>

text \<open>\<^verbatim>\<open>Remove\<close> detaches the panel's layout node from the grid; the deferred
  \<^verbatim>\<open>p.Hide()\<close> runs afterwards.\<close>

definition Remove :: "panel_ref \<Rightarrow> UI \<Rightarrow> UI" where
  "Remove p ui =
     (let g = Grid (panels ui p)
      in emit [GridRemove g, PanelHide p] (ui\<lparr>slot := removeAll g (slot ui)\<rparr>))"

text \<open>
  The argument of \<^verbatim>\<open>Add\<close> is an interface value, \<open>None\<close> when it is nil. With a nil
  argument the old panel is removed, \<^verbatim>\<open>Current\<close> is set to nil and the call
  \<^verbatim>\<open>ui.Current.Show()\<close> panics.
\<close>

definition Add :: "panel_ref option \<Rightarrow> UI \<Rightarrow> panic + UI" where
  "Add p ui =
     (let ui1 = (case Current ui of None \<Rightarrow> ui | Some c \<Rightarrow> Remove c ui);
          ui2 = ui1\<lparr>Current := p\<rparr>
      in case Current ui2 of
           None \<Rightarrow> Inl NilPointerDereference
         | Some r \<Rightarrow>
             (let g = Grid (panels ui2 r)
              in Inr (emit [PanelShow r, GridAttach g, GridShowAll]
                        (ui2\<lparr>slot := slot ui2 @ [g]\<rparr>))))"

definition GoHistory :: "UI \<Rightarrow> panic + UI" where
  "GoHistory ui =
     (case Current ui of
        None \<Rightarrow> Inl NilPointerDereference
      | Some c \<Rightarrow> Add (Parent (panels ui c)) ui)"

subsection \<open>verifyConnection (lines 118-167)\<close>

text \<open>
  What one tick receives from outside: the result of \<^verbatim>\<open>daemon.SdNotify\<close>, the result
  of the status query (the error, or the current state), the result of the connect command
  should the tick issue one, and the reading of the clock.
\<close>

record tick_env =
  notify_result :: "go_error option"
  query_result :: "go_error + ConnectionState"
  connect_result :: "go_error option"
  now :: time

text \<open>The body of the case shared by \<^verbatim>\<open>IsError\<close> (through \<^verbatim>\<open>fallthrough\<close>) and
  \<^verbatim>\<open>IsOffline\<close>, lines 135-138.\<close>

definition connect :: "tick_env \<Rightarrow> UI \<Rightarrow> string \<times> UI" where
  "connect env ui =
     (let ui1 = emit [ConnectRequest] ui
      in case connect_result env of
           Some err \<Rightarrow> (''splash'', Label_SetText (''Error connecting to printer: '' @ err) ui1)
         | None \<Rightarrow> (''splash'', ui1))"

text \<open>Lines 122-149: the query and the classification. The result is the value of
  \<^verbatim>\<open>newUiState\<close> at line 151 and the struct as it is then.\<close>

definition poll :: "(string \<Rightarrow> string) \<Rightarrow> tick_env \<Rightarrow> UI \<Rightarrow> string \<times> UI" where
  "poll quote env ui =
     (let ui0 = emit [ConnectionRequest] ui
      in case query_result env of
           Inr st \<Rightarrow>
             (let ui1 = ui0\<lparr>State := Some st\<rparr>
              in if IsOperational st then (''idle'', ui1)
                 else if IsPrinting st then (''printing'', ui1)
                 else if IsError st then connect env ui1
                 else if IsOffline st then connect env ui1
                 else if IsConnecting st then (''splash'', Label_SetText (label st) ui1)
                 else (''splash'', ui1))
         | Inl err \<Rightarrow>
             (let ui1 = (if Since (now env) (started ui0) > errMercyPeriod
                         then Label_SetText (errToUser quote ui0 err) ui0
                         else ui0)
              in (''splash'', emit [LogDebug (''Unexpected error: '' @ err)] ui1)))"

text \<open>Lines 157-166: the panel of the new mode is built and installed.\<close>

definition install :: "string \<Rightarrow> UI \<Rightarrow> panic + UI" where
  "install newUiState ui =
     (if newUiState = ''idle''
      then (let (p, ui1) = IdleStatusPanel (emit [LogInfo ''Printer is ready''] ui)
            in Add (Some p) ui1)
      else if newUiState = ''printing''
      then (let (p, ui1) = PrintStatusPanel (emit [LogInfo ''Printing a job''] ui)
            in Add (Some p) ui1)
      else if newUiState = ''splash''
      then Add (Some (splash ui)) ui
      else Inr ui)"

text \<open>The deferred function of line 151 stores \<^verbatim>\<open>newUiState\<close> when the method returns,
  on the early return of line 154 as after the switch.\<close>

definition verifyConnection :: "(string \<Rightarrow> string) \<Rightarrow> tick_env \<Rightarrow> UI \<Rightarrow> panic + UI" where
  "verifyConnection quote env ui =
     (let (newUiState, ui1) = poll quote env (sdNotify (notify_result env) ''WATCHDOG=1'' ui)
      in if newUiState = UIState ui1
         then Inr (ui1\<lparr>UIState := newUiState\<rparr>)
         else (case install newUiState ui1 of
                 Inl e \<Rightarrow> Inl e
               | Inr ui2 \<Rightarrow> Inr (ui2\<lparr>UIState := newUiState\<rparr>)))"

text \<open>
  Modelled from the spec: the background task, whose code is not in ui.go, invokes
  \<^verbatim>\<open>verifyConnection\<close> again and again (section 4.1). \<open>ticks\<close> runs one invocation for
  each element of a list of inputs.
\<close>

fun ticks :: "(string \<Rightarrow> string) \<Rightarrow> tick_env list \<Rightarrow> UI \<Rightarrow> panic + UI" where
  "ticks quote [] ui = Inr ui"
| "ticks quote (env # envs) ui =
     (case verifyConnection quote env ui of
        Inl e \<Rightarrow> Inl e
      | Inr ui1 \<Rightarrow> ticks quote envs ui1)"

subsection \<open>New (lines 49-79) and initialize (lines 81-102)\<close>

text \<open>
  What the constructor receives from outside: the reading of the clock, the text the
  splash panel's label is built with, and the result of \<^verbatim>\<open>daemon.SdNotify\<close>.
\<close>

record new_env =
  clock :: time
  splash_text :: string
  ready_result :: "go_error option"

definition initialize :: "new_env \<Rightarrow> UI \<Rightarrow> UI" where
  "initialize env ui = sdNotify (ready_result env) ''READY=1'' (ui\<lparr>slot := []\<rparr>)"

definition New :: "new_env \<Rightarrow> string \<Rightarrow> string \<Rightarrow> int \<Rightarrow> int \<Rightarrow> UI" where
  "New env endpoint key w h =
     (let (w1, h1) = (if w = 0 \<or> h = 0 then (WindowWidth, WindowHeight) else (w, h));
          ui = \<lparr>Current = None,
                Printer = \<lparr>Endpoint = endpoint, APIKey = key\<rparr>,
                State = None,
                UIState = '''',
                splash = 0,
                Label = splash_text env,
                started = clock env,
                width = w1,
                height = h1,
                scaleFactor = 0,
                slot = [],
                panels = (\<lambda>_. \<lparr>kind = OtherPanel, Grid = 0, Parent = None\<rparr>),
                next_ref = 0,
                events = []\<rparr>;
          ui1 = ui\<lparr>scaleFactor := (if w1 > 480 then 2 else if w1 > 1000 then 3 else 1)\<rparr>;
          (sp, ui2) = NewSplashPanel ui1;
          ui3 = ui2\<lparr>splash := sp\<rparr>
      in initialize env ui3)"

subsection \<open>Observations on traces\<close>

text \<open>The events that change what the display slot holds.\<close>

fun is_swap :: "event \<Rightarrow> bool" where
  "is_swap (GridRemove g) = True"
| "is_swap (GridAttach g) = True"
| "is_swap e = False"

definition swap_count :: "UI \<Rightarrow> nat" where
  "swap_count ui = length (filter is_swap (events ui))"

text \<open>The content of the display slot after a run of events, from its content before.\<close>

fun replay :: "event list \<Rightarrow> widget list \<Rightarrow> widget list" where
  "replay [] ws = ws"
| "replay (GridRemove g # es) ws = replay es (removeAll g ws)"
| "replay (GridAttach g # es) ws = replay es (ws @ [g])"
| "replay (e # es) ws = replay es ws"

text \<open>The display slot holds the layout node of the current panel and nothing else.\<close>

definition slot_ok :: "UI \<Rightarrow> bool" where
  "slot_ok ui =
     (slot ui = (case Current ui of None \<Rightarrow> [] | Some c \<Rightarrow> [Grid (panels ui c)]))"

text \<open>The events a state has gained since an earlier one.\<close>

definition new_events :: "UI \<Rightarrow> UI \<Rightarrow> event list" where
  "new_events ui ui' = drop (length (events ui)) (events ui')"

text \<open>The events that install, remove, show or hide a panel.\<close>

fun is_panel_event :: "event \<Rightarrow> bool" where
  "is_panel_event (GridRemove g) = True"
| "is_panel_event (GridAttach g) = True"
| "is_panel_event (PanelHide p) = True"
| "is_panel_event (PanelShow p) = True"
| "is_panel_event GridShowAll = True"
| "is_panel_event e = False"

text \<open>The splash panel and the current panel are allocated panels.\<close>

definition refs_ok :: "UI \<Rightarrow> bool" where
  "refs_ok ui =
     (splash ui < next_ref ui \<and> (case Current ui of None \<Rightarrow> True | Some c \<Rightarrow> c < next_ref ui))"


subsection \<open>Example inputs\<close>

text \<open>A freshly constructed UI, connection states and tick inputs, for evaluating the
  model at concrete inputs.\<close>

definition example_new_env :: new_env where
  "example_new_env = \<lparr>clock = 0, splash_text = ''Initializing'', ready_result = None\<rparr>"

definition example_ui :: UI where
  "example_ui = New example_new_env ''http://host:80'' ''secret'' 800 480"

definition example_state :: "string \<Rightarrow> bool \<Rightarrow> bool \<Rightarrow> bool \<Rightarrow> bool \<Rightarrow> bool \<Rightarrow> ConnectionState" where
  "example_state l op pr er off con =
     \<lparr>label = l, IsOperational = op, IsPrinting = pr, IsError = er, IsOffline = off,
      IsConnecting = con\<rparr>"

definition example_tick :: "go_error + ConnectionState \<Rightarrow> go_error option \<Rightarrow> time \<Rightarrow> tick_env" where
  "example_tick q c n = \<lparr>notify_result = None, query_result = q, connect_result = c, now = n\<rparr>"

section \<open>Properties\<close>

subsection \<open>Fields and traces of the building blocks\<close>

lemma emit_simps [simp]:
  "Current (emit es ui) = Current ui"
  "Printer (emit es ui) = Printer ui"
  "State (emit es ui) = State ui"
  "UIState (emit es ui) = UIState ui"
  "splash (emit es ui) = splash ui"
  "Label (emit es ui) = Label ui"
  "started (emit es ui) = started ui"
  "width (emit es ui) = width ui"
  "height (emit es ui) = height ui"
  "scaleFactor (emit es ui) = scaleFactor ui"
  "slot (emit es ui) = slot ui"
  "panels (emit es ui) = panels ui"
  "next_ref (emit es ui) = next_ref ui"
  "events (emit es ui) = events ui @ es"
  by (simp_all add: emit_def)

lemma Label_SetText_simps [simp]:
  "Current (Label_SetText m ui) = Current ui"
  "Printer (Label_SetText m ui) = Printer ui"
  "State (Label_SetText m ui) = State ui"
  "UIState (Label_SetText m ui) = UIState ui"
  "splash (Label_SetText m ui) = splash ui"
  "Label (Label_SetText m ui) = m"
  "started (Label_SetText m ui) = started ui"
  "slot (Label_SetText m ui) = slot ui"
  "panels (Label_SetText m ui) = panels ui"
  "next_ref (Label_SetText m ui) = next_ref ui"
  "events (Label_SetText m ui) = events ui @ [SetText m]"
  by (simp_all add: Label_SetText_def)

lemma sdNotify_simps [simp]:
  "Current (sdNotify r m ui) = Current ui"
  "Printer (sdNotify r m ui) = Printer ui"
  "State (sdNotify r m ui) = State ui"
  "UIState (sdNotify r m ui) = UIState ui"
  "splash (sdNotify r m ui) = splash ui"
  "Label (sdNotify r m ui) = Label ui"
  "started (sdNotify r m ui) = started ui"
  "slot (sdNotify r m ui) = slot ui"
  "panels (sdNotify r m ui) = panels ui"
  "next_ref (sdNotify r m ui) = next_ref ui"
  by (simp_all add: sdNotify_def split: option.split)

lemma sdNotify_events:
  "events (sdNotify r m ui) = events ui @
     (case r of None \<Rightarrow> [SdNotify m]
      | Some err \<Rightarrow> [SdNotify m, LogError (''Error sending notification: '' @ err)])"
  by (simp add: sdNotify_def split: option.split)

lemma connect_simps [simp]:
  "fst (connect env ui) = ''splash''"
  "Current (snd (connect env ui)) = Current ui"
  "Printer (snd (connect env ui)) = Printer ui"
  "State (snd (connect env ui)) = State ui"
  "UIState (snd (connect env ui)) = UIState ui"
  "splash (snd (connect env ui)) = splash ui"
  "started (snd (connect env ui)) = started ui"
  "slot (snd (connect env ui)) = slot ui"
  "panels (snd (connect env ui)) = panels ui"
  "next_ref (snd (connect env ui)) = next_ref ui"
  by (simp_all add: connect_def Let_def split: option.split)

lemma connect_Label:
  "Label (snd (connect env ui)) =
     (case connect_result env of None \<Rightarrow> Label ui
      | Some err \<Rightarrow> ''Error connecting to printer: '' @ err)"
  by (simp add: connect_def Let_def split: option.split)

lemma connect_events:
  "events (snd (connect env ui)) = events ui @ ConnectRequest #
     (case connect_result env of None \<Rightarrow> []
      | Some err \<Rightarrow> [SetText (''Error connecting to printer: '' @ err)])"
  by (simp add: connect_def Let_def split: option.split)

lemma poll_simps [simp]:
  "Current (snd (poll q env ui)) = Current ui"
  "Printer (snd (poll q env ui)) = Printer ui"
  "UIState (snd (poll q env ui)) = UIState ui"
  "splash (snd (poll q env ui)) = splash ui"
  "started (snd (poll q env ui)) = started ui"
  "slot (snd (poll q env ui)) = slot ui"
  "panels (snd (poll q env ui)) = panels ui"
  "next_ref (snd (poll q env ui)) = next_ref ui"
  by (simp_all add: poll_def Let_def split: sum.split)

lemma poll_mode:
  "fst (poll q env ui) =
     (case query_result env of
        Inl err \<Rightarrow> ''splash''
      | Inr st \<Rightarrow> if IsOperational st then ''idle''
                  else if IsPrinting st then ''printing'' else ''splash'')"
  by (simp add: poll_def Let_def split: sum.split)

lemma poll_mode_indep: "fst (poll q env ui) = fst (poll q' env ui')"
  by (simp add: poll_mode)

lemma poll_events:
  "\<exists>es. events (snd (poll q env ui)) = events ui @ es \<and> (\<forall>e\<in>set es. \<not> is_panel_event e)"
  by (auto simp add: poll_def Let_def connect_events split: sum.split option.split)

lemma Remove_simps [simp]:
  "Current (Remove p ui) = Current ui"
  "Printer (Remove p ui) = Printer ui"
  "State (Remove p ui) = State ui"
  "UIState (Remove p ui) = UIState ui"
  "splash (Remove p ui) = splash ui"
  "Label (Remove p ui) = Label ui"
  "started (Remove p ui) = started ui"
  "slot (Remove p ui) = removeAll (Grid (panels ui p)) (slot ui)"
  "panels (Remove p ui) = panels ui"
  "next_ref (Remove p ui) = next_ref ui"
  "events (Remove p ui) = events ui @ [GridRemove (Grid (panels ui p)), PanelHide p]"
  by (simp_all add: Remove_def Let_def)

lemma new_events_append [simp]: "events ui' = events ui @ es \<Longrightarrow> new_events ui ui' = es"
  by (simp add: new_events_def)

lemma Add_nil: "Add None ui = Inl NilPointerDereference"
  by (simp add: Add_def Let_def)

lemma Add_Some:
  "Add (Some p) ui =
     Inr (emit [PanelShow p, GridAttach (Grid (panels ui p)), GridShowAll]
            ((case Current ui of None \<Rightarrow> ui | Some c \<Rightarrow> Remove c ui)
               \<lparr>Current := Some p,
                slot := (case Current ui of None \<Rightarrow> slot ui
                         | Some c \<Rightarrow> removeAll (Grid (panels ui c)) (slot ui)) @
                        [Grid (panels ui p)]\<rparr>))"
  by (simp add: Add_def Let_def split: option.split)

lemma Add_fields:
  assumes "Add (Some p) ui = Inr ui'"
  shows "Current ui' = Some p" "Printer ui' = Printer ui" "State ui' = State ui"
    "UIState ui' = UIState ui" "splash ui' = splash ui" "Label ui' = Label ui"
    "started ui' = started ui" "panels ui' = panels ui" "next_ref ui' = next_ref ui"
  using assms by (auto simp add: Add_Some split: option.splits)

lemma Add_events:
  assumes "Add (Some p) ui = Inr ui'"
  shows "events ui' = events ui @
     (case Current ui of None \<Rightarrow> []
      | Some c \<Rightarrow> [GridRemove (Grid (panels ui c)), PanelHide c]) @
     [PanelShow p, GridAttach (Grid (panels ui p)), GridShowAll]"
  using assms by (auto simp add: Add_Some split: option.splits)

lemma Add_slot:
  assumes "Add (Some p) ui = Inr ui'"
  shows "slot ui' =
     (case Current ui of None \<Rightarrow> slot ui
      | Some c \<Rightarrow> removeAll (Grid (panels ui c)) (slot ui)) @ [Grid (panels ui p)]"
  using assms by (auto simp add: Add_Some split: option.splits)

lemma Add_slot_ok:
  assumes "Add (Some p) ui = Inr ui'" and "slot_ok ui"
  shows "slot_ok ui'"
  using assms by (auto simp add: Add_Some slot_ok_def split: option.splits)

lemma GoHistory_nil: "Current ui = None \<Longrightarrow> GoHistory ui = Inl NilPointerDereference"
  by (simp add: GoHistory_def)

lemma NewPanel_simps [simp]:
  "fst (NewPanel k ui) = next_ref ui"
  "Current (snd (NewPanel k ui)) = Current ui"
  "Printer (snd (NewPanel k ui)) = Printer ui"
  "State (snd (NewPanel k ui)) = State ui"
  "UIState (snd (NewPanel k ui)) = UIState ui"
  "splash (snd (NewPanel k ui)) = splash ui"
  "Label (snd (NewPanel k ui)) = Label ui"
  "started (snd (NewPanel k ui)) = started ui"
  "slot (snd (NewPanel k ui)) = slot ui"
  "panels (snd (NewPanel k ui)) =
     (panels ui)(next_ref ui := \<lparr>kind = k, Grid = next_ref ui, Parent = None\<rparr>)"
  "next_ref (snd (NewPanel k ui)) = Suc (next_ref ui)"
  "events (snd (NewPanel k ui)) = events ui"
  by (simp_all add: NewPanel_def Let_def)

lemma install_unfold:
  "install m ui =
     (if m = ''idle''
      then Add (Some (next_ref ui)) (snd (NewPanel IdleStatus (emit [LogInfo ''Printer is ready''] ui)))
      else if m = ''printing''
      then Add (Some (next_ref ui)) (snd (NewPanel PrintStatus (emit [LogInfo ''Printing a job''] ui)))
      else if m = ''splash'' then Add (Some (splash ui)) ui
      else Inr ui)"
  by (simp add: install_def IdleStatusPanel_def PrintStatusPanel_def split_def Let_def)

lemma install_total: "\<exists>ui'. install m ui = Inr ui'"
  by (simp add: install_unfold Add_Some)

lemma install_fields:
  assumes "install m ui = Inr ui'"
  shows "Printer ui' = Printer ui" "State ui' = State ui" "UIState ui' = UIState ui"
    "splash ui' = splash ui" "Label ui' = Label ui" "started ui' = started ui"
  using assms by (auto simp add: install_unfold dest: Add_fields split: if_splits)

lemma install_splash:
  assumes "install ''splash'' ui = Inr ui'"
  shows "Current ui' = Some (splash ui)" "panels ui' = panels ui" "next_ref ui' = next_ref ui"
    "events ui' = events ui @
       (case Current ui of None \<Rightarrow> []
        | Some c \<Rightarrow> [GridRemove (Grid (panels ui c)), PanelHide c]) @
       [PanelShow (splash ui), GridAttach (Grid (panels ui (splash ui))), GridShowAll]"
    "slot ui' =
       (case Current ui of None \<Rightarrow> slot ui
        | Some c \<Rightarrow> removeAll (Grid (panels ui c)) (slot ui)) @ [Grid (panels ui (splash ui))]"
  using assms Add_fields [of "splash ui" ui ui'] Add_events [of "splash ui" ui ui']
    Add_slot [of "splash ui" ui ui']
  by (simp_all add: install_unfold)

lemma verifyConnection_unfold:
  "verifyConnection q env ui =
     (let r = poll q env (sdNotify (notify_result env) ''WATCHDOG=1'' ui)
      in if fst r = UIState ui then Inr (snd r)
         else (case install (fst r) (snd r) of
                 Inl e \<Rightarrow> Inl e
               | Inr ui2 \<Rightarrow> Inr (ui2\<lparr>UIState := fst r\<rparr>)))"
proof -
  have "u\<lparr>UIState := UIState u\<rparr> = u" for u :: UI
    by simp
  then show ?thesis
    by (auto simp add: verifyConnection_def split_def Let_def)
qed

lemma verifyConnection_total: "\<exists>ui'. verifyConnection q env ui = Inr ui'"
proof -
  obtain u where "install (fst (poll q env (sdNotify (notify_result env) ''WATCHDOG=1'' ui)))
      (snd (poll q env (sdNotify (notify_result env) ''WATCHDOG=1'' ui))) = Inr u"
    using install_total by blast
  then show ?thesis
    by (simp add: verifyConnection_unfold Let_def)
qed

lemma verifyConnection_fields:
  assumes "verifyConnection q env ui = Inr ui'"
  shows "UIState ui' = fst (poll q env ui)"
    "Label ui' = Label (snd (poll q env ui))"
    "State ui' = State (snd (poll q env ui))"
    "started ui' = started ui" "Printer ui' = Printer ui" "splash ui' = splash ui"
proof -
  let ?u0 = "sdNotify (notify_result env) ''WATCHDOG=1'' ui"
  have m: "fst (poll q env ?u0) = fst (poll q env ui)"
    by (rule poll_mode_indep)
  have l: "Label (snd (poll q env ?u0)) = Label (snd (poll q env ui))"
    "State (snd (poll q env ?u0)) = State (snd (poll q env ui))"
    by (simp_all add: poll_def Let_def connect_Label errToUser_def split: sum.split option.split)
  show "UIState ui' = fst (poll q env ui)"
    using assms m
    by (auto simp add: verifyConnection_unfold Let_def split: if_splits sum.splits)
  show "Label ui' = Label (snd (poll q env ui))"
    using assms l
    by (auto simp add: verifyConnection_unfold Let_def dest: install_fields
        split: if_splits sum.splits)
  show "State ui' = State (snd (poll q env ui))"
    using assms l
    by (auto simp add: verifyConnection_unfold Let_def dest: install_fields
        split: if_splits sum.splits)
  show "started ui' = started ui" "Printer ui' = Printer ui" "splash ui' = splash ui"
    using assms
    by (auto simp add: verifyConnection_unfold Let_def dest: install_fields
        split: if_splits sum.splits)
qed


lemma tick_events_prefix:
  "\<exists>es. events (snd (poll q env (sdNotify r ''WATCHDOG=1'' ui))) =
          events ui @ SdNotify ''WATCHDOG=1'' # es \<and>
        filter is_panel_event es = [] \<and> count_list es (SdNotify ''WATCHDOG=1'') = 0"
  by (auto simp add: poll_def Let_def connect_events sdNotify_events
      split: sum.split option.split)

lemma install_events:
  assumes "install m ui = Inr ui'"
  shows "\<exists>es. events ui' = events ui @ es \<and>
           (\<forall>e\<in>set es. is_panel_event e \<or> (\<exists>s. e = LogInfo s))"
  using assms
  by (auto simp add: install_unfold Add_Some split: if_splits option.splits)

lemma verifyConnection_events:
  assumes "verifyConnection q env ui = Inr ui'"
  shows "\<exists>es. events ui' =
            events (snd (poll q env (sdNotify (notify_result env) ''WATCHDOG=1'' ui))) @ es \<and>
           (\<forall>e\<in>set es. is_panel_event e \<or> (\<exists>s. e = LogInfo s))"
proof -
  let ?r = "poll q env (sdNotify (notify_result env) ''WATCHDOG=1'' ui)"
  show ?thesis
  proof (cases "fst ?r = UIState ui")
    case True
    then have "ui' = snd ?r"
      using assms by (simp add: verifyConnection_unfold Let_def)
    then show ?thesis by simp
  next
    case False
    then obtain u where u: "install (fst ?r) (snd ?r) = Inr u" and "ui' = u\<lparr>UIState := fst ?r\<rparr>"
      using assms by (auto simp add: verifyConnection_unfold Let_def split: sum.splits)
    then show ?thesis
      using install_events [OF u] by auto
  qed
qed

lemma poll_success_events:
  assumes "query_result env = Inr st"
  shows "events (snd (poll q env ui)) = events ui @ ConnectionRequest #
     (if IsOperational st \<or> IsPrinting st then []
      else if IsError st \<or> IsOffline st
      then ConnectRequest #
           (case connect_result env of None \<Rightarrow> []
            | Some e \<Rightarrow> [SetText (''Error connecting to printer: '' @ e)])
      else if IsConnecting st then [SetText (label st)] else [])"
  using assms by (simp add: poll_def Let_def connect_events)

lemma poll_success_Label:
  assumes "query_result env = Inr st"
  shows "Label (snd (poll q env ui)) =
     (if IsOperational st \<or> IsPrinting st then Label ui
      else if IsError st \<or> IsOffline st
      then (case connect_result env of None \<Rightarrow> Label ui
            | Some e \<Rightarrow> ''Error connecting to printer: '' @ e)
      else if IsConnecting st then label st else Label ui)"
  using assms by (simp add: poll_def Let_def connect_Label split: option.split)

lemma poll_success_State:
  assumes "query_result env = Inr st"
  shows "State (snd (poll q env ui)) = Some st"
  using assms by (simp add: poll_def Let_def connect_def split: option.split)

lemma poll_failure_Label:
  assumes "query_result env = Inl err"
  shows "Label (snd (poll q env ui)) =
     (if Since (now env) (started ui) > errMercyPeriod then errToUser q ui err else Label ui)"
  using assms by (simp add: poll_def Let_def errToUser_def)

lemma poll_failure_events:
  assumes "query_result env = Inl err"
  shows "events (snd (poll q env ui)) = events ui @ ConnectionRequest #
     (if Since (now env) (started ui) > errMercyPeriod then [SetText (errToUser q ui err)] else []) @
     [LogDebug (''Unexpected error: '' @ err)]"
  using assms by (simp add: poll_def Let_def errToUser_def)

lemma no_panel_no_swap: "filter is_panel_event es = [] \<Longrightarrow> filter is_swap es = []"
  by (induction es) (auto split: if_splits elim: is_swap.elims)




lemma install_event_facts:
  assumes "\<forall>e\<in>set es. is_panel_event e \<or> (\<exists>s. e = LogInfo s)"
  shows "ConnectRequest \<notin> set es" "count_list es ConnectRequest = 0" "SetText x \<notin> set es"
  using assms by (auto simp add: count_list_0_iff)

lemma ticks_started: "ticks q envs ui = Inr ui' \<Longrightarrow> started ui' = started ui"
proof (induction envs arbitrary: ui)
  case Nil
  then show ?case by simp
next
  case (Cons env envs)
  then show ?case
    by (auto split: sum.splits dest: verifyConnection_fields(4))
qed

lemma Add_started: "Add p ui = Inr ui' \<Longrightarrow> started ui' = started ui"
  by (cases p) (auto simp add: Add_nil dest: Add_fields)

lemma GoHistory_started: "GoHistory ui = Inr ui' \<Longrightarrow> started ui' = started ui"
  by (auto simp add: GoHistory_def split: option.splits dest: Add_started)

lemma New_started: "started (New env endpoint key w h) = clock env"
  by (simp add: New_def initialize_def NewSplashPanel_def split_def Let_def)

lemma New_fields:
  "UIState (New env endpoint key w h) = ''''"
  "Current (New env endpoint key w h) = None"
  "slot (New env endpoint key w h) = []"
  "splash (New env endpoint key w h) = 0"
  "next_ref (New env endpoint key w h) = 1"
  "Label (New env endpoint key w h) = splash_text env"
  "Printer (New env endpoint key w h) = \<lparr>Endpoint = endpoint, APIKey = key\<rparr>"
  "State (New env endpoint key w h) = None"
  "panels (New env endpoint key w h) 0 = \<lparr>kind = SplashPanel, Grid = 0, Parent = None\<rparr>"
  by (simp_all add: New_def initialize_def NewSplashPanel_def split_def Let_def)

lemma New_events:
  "events (New env endpoint key w h) =
     (case ready_result env of None \<Rightarrow> [SdNotify ''READY=1'']
      | Some err \<Rightarrow> [SdNotify ''READY=1'', LogError (''Error sending notification: '' @ err)])"
  by (simp add: New_def initialize_def NewSplashPanel_def split_def Let_def sdNotify_events)

lemma example_tick_simps [simp]:
  "notify_result (example_tick q c n) = None"
  "query_result (example_tick q c n) = q"
  "connect_result (example_tick q c n) = c"
  "now (example_tick q c n) = n"
  by (simp_all add: example_tick_def)

lemma example_state_simps [simp]:
  "label (example_state l op pr er off con) = l"
  "IsOperational (example_state l op pr er off con) = op"
  "IsPrinting (example_state l op pr er off con) = pr"
  "IsError (example_state l op pr er off con) = er"
  "IsOffline (example_state l op pr er off con) = off"
  "IsConnecting (example_state l op pr er off con) = con"
  by (simp_all add: example_state_def)

lemma example_ui_fields [simp]:
  "UIState example_ui = ''''"
  "Current example_ui = None"
  "slot example_ui = []"
  "splash example_ui = 0"
  "next_ref example_ui = 1"
  "Label example_ui = ''Initializing''"
  "started example_ui = 0"
  "Printer example_ui = \<lparr>Endpoint = ''http://host:80'', APIKey = ''secret''\<rparr>"
  "events example_ui = [SdNotify ''READY=1'']"
  by (simp_all add: example_ui_def New_fields New_started New_events example_new_env_def)

lemma Contains_sublist: "Contains s sub \<longleftrightarrow> sublist sub s"
  by (induction s) (auto simp add: sublist_Cons_right)

lemma Contains_append: "Contains (a @ b @ c) b"
  by (simp add: Contains_sublist)

lemma Contains_append_right: "Contains (a @ b) b"
  by (simp add: Contains_sublist)

text \<open>Every state that ticks reach from a freshly constructed UI holds in its display
  slot the layout node of the current panel and nothing else.\<close>

lemma install_invariant:
  assumes "install m ui = Inr ui'" and "refs_ok ui" and "slot_ok ui"
  shows "refs_ok ui' \<and> slot_ok ui'"
  using assms
  by (auto simp add: install_unfold Add_Some refs_ok_def slot_ok_def
      split: if_splits option.splits)

lemma verifyConnection_invariant:
  assumes "verifyConnection q env ui = Inr ui'" and "refs_ok ui" and "slot_ok ui"
  shows "refs_ok ui' \<and> slot_ok ui'"
proof -
  let ?r = "poll q env (sdNotify (notify_result env) ''WATCHDOG=1'' ui)"
  have r: "refs_ok (snd ?r)" "slot_ok (snd ?r)"
    using assms(2,3) by (simp_all add: refs_ok_def slot_ok_def split: option.splits)
  show ?thesis
  proof (cases "fst ?r = UIState ui")
    case True
    then show ?thesis
      using assms(1) r by (simp add: verifyConnection_unfold Let_def)
  next
    case False
    then obtain u where u: "install (fst ?r) (snd ?r) = Inr u" and "ui' = u\<lparr>UIState := fst ?r\<rparr>"
      using assms(1) by (auto simp add: verifyConnection_unfold Let_def split: sum.splits)
    then show ?thesis
      using install_invariant [OF u r] by (simp add: refs_ok_def slot_ok_def split: option.splits)
  qed
qed

lemma ticks_invariant:
  assumes "ticks q envs ui = Inr ui'" and "refs_ok ui" and "slot_ok ui"
  shows "refs_ok ui' \<and> slot_ok ui'"
  using assms
proof (induction envs arbitrary: ui)
  case Nil
  then show ?case by simp
next
  case (Cons env envs)
  then show ?case
    by (auto split: sum.splits dest: verifyConnection_invariant)
qed

lemma New_invariant: "refs_ok (New env endpoint key w h) \<and> slot_ok (New env endpoint key w h)"
  by (simp add: refs_ok_def slot_ok_def New_fields)

lemma ticks_total: "\<exists>ui'. ticks q envs ui = Inr ui'"
proof (induction envs arbitrary: ui)
  case Nil
  then show ?case by simp
next
  case (Cons env envs)
  obtain u where "verifyConnection q env ui = Inr u"
    using verifyConnection_total by blast
  then show ?case
    using Cons.IH [of u] by simp
qed

lemma reachable_slot:
  assumes "ticks q envs (New env endpoint key w h) = Inr ui"
  shows "slot_ok ui" "length (slot ui) \<le> 1"
proof -
  show ok: "slot_ok ui"
    using ticks_invariant [OF assms] New_invariant by blast
  then show "length (slot ui) \<le> 1"
    by (simp add: slot_ok_def split: option.splits)
qed

subsection \<open>Window dimensions\<close>

text \<open>
  C10. In \<open>New\<close>, when the width is zero or the height is zero, both stored dimensions are
  the defaults, width 800 and height 480, also when one of the two is not zero; when both
  are non-zero they are stored as given.
\<close>

theorem New_dimensions:
  "width (New env endpoint key w h) = (if w = 0 \<or> h = 0 then 800 else w) \<and>
   height (New env endpoint key w h) = (if w = 0 \<or> h = 0 then 480 else h)"
  by (simp add: New_def initialize_def sdNotify_def emit_def NewSplashPanel_def NewPanel_def
      WindowWidth_def WindowHeight_def Let_def split: option.split)

theorem New_dimensions_witness:
  "width (New example_new_env ''http://host:80'' ''secret'' 1024 0) = 800 \<and>
   height (New example_new_env ''http://host:80'' ''secret'' 1024 0) = 480 \<and>
   width (New example_new_env ''http://host:80'' ''secret'' 0 600) = 800 \<and>
   height (New example_new_env ''http://host:80'' ''secret'' 0 600) = 480 \<and>
   width (New example_new_env ''http://host:80'' ''secret'' 1024 600) = 1024 \<and>
   height (New example_new_env ''http://host:80'' ''secret'' 1024 600) = 600"
  using New_dimensions [of example_new_env "''http://host:80''" "''secret''" 1024 0]
    New_dimensions [of example_new_env "''http://host:80''" "''secret''" 0 600]
    New_dimensions [of example_new_env "''http://host:80''" "''secret''" 1024 600]
  by simp

subsection \<open>Swapping panels\<close>

text \<open>
  C6. A call of \<open>Add\<close> with a panel \<open>p\<close> while a panel \<open>old\<close> is current detaches the
  layout node of \<open>old\<close> once and attaches the layout node of \<open>p\<close> once, the detach (and
  the hiding of \<open>old\<close>) before the showing of \<open>p\<close> and the attach. If the display slot
  held the node of the current panel and nothing else, then after every prefix of these
  calls it holds at most one node: none once the old node is detached, and the node of
  \<open>p\<close> at the end.
\<close>

theorem Add_swaps_in_order:
  assumes "Current ui = Some old"
  shows "\<exists>ui'. Add (Some p) ui = Inr ui' \<and> Current ui' = Some p \<and>
           new_events ui ui' =
             [GridRemove (Grid (panels ui old)), PanelHide old,
              PanelShow p, GridAttach (Grid (panels ui p)), GridShowAll] \<and>
           (slot_ok ui \<longrightarrow>
              slot ui' = [Grid (panels ui p)] \<and>
              slot_ok ui' \<and>
              replay (new_events ui ui') (slot ui) = slot ui' \<and>
              (\<forall>n. length (replay (take n (new_events ui ui')) (slot ui)) \<le> 1) \<and>
              replay (take 1 (new_events ui ui')) (slot ui) = [])"
proof -
  obtain ui' where a: "Add (Some p) ui = Inr ui'"
    by (simp add: Add_Some)
  have ev: "new_events ui ui' =
             [GridRemove (Grid (panels ui old)), PanelHide old,
              PanelShow p, GridAttach (Grid (panels ui p)), GridShowAll]"
    using Add_events [OF a] assms by simp
  have cur: "Current ui' = Some p"
    using Add_fields(1) [OF a] .
  have inv: "slot ui' = [Grid (panels ui p)] \<and> slot_ok ui' \<and>
      replay (new_events ui ui') (slot ui) = slot ui' \<and>
      (\<forall>n. length (replay (take n (new_events ui ui')) (slot ui)) \<le> 1) \<and>
      replay (take 1 (new_events ui ui')) (slot ui) = []" if ok: "slot_ok ui"
  proof -
    have s0: "slot ui = [Grid (panels ui old)]"
      using ok assms by (simp add: slot_ok_def)
    have s1: "slot ui' = [Grid (panels ui p)]"
      using Add_slot [OF a] assms s0 by simp
    have pre: "length (replay (take n (new_events ui ui')) (slot ui)) \<le> 1" for n
    proof -
      consider "n = 0" | "n = 1" | "n = 2" | "n = 3" | "n = 4" | "n \<ge> 5"
        by linarith
      then show ?thesis
        by cases (simp_all add: ev s0 numeral_2_eq_2 numeral_3_eq_3 eval_nat_numeral)
    qed
    show ?thesis
      using s1 Add_slot_ok [OF a ok] pre by (simp add: ev s0)
  qed
  show ?thesis
    using a ev cur inv by blast
qed

theorem Add_swaps_in_order_witness:
  "\<exists>ui1 ui2.
     verifyConnection quote_printable
       (example_tick (Inr (example_state ''Operational'' True False False False False)) None
          (5 * Second)) example_ui = Inr ui1 \<and>
     Current ui1 = Some 1 \<and> slot_ok ui1 \<and>
     Add (Some 0) ui1 = Inr ui2 \<and>
     new_events ui1 ui2 = [GridRemove 1, PanelHide 1, PanelShow 0, GridAttach 0, GridShowAll] \<and>
     slot ui2 = [0] \<and> Current ui2 = Some 0"
proof -
  let ?e = "example_tick (Inr (example_state ''Operational'' True False False False False))
      None (5 * Second)"
  have "\<exists>u. verifyConnection quote_printable ?e example_ui = Inr u \<and> Current u = Some 1 \<and>
      slot u = [1] \<and> Grid (panels u 1) = 1 \<and> Grid (panels u 0) = 0"
    by (simp add: verifyConnection_unfold install_unfold Add_Some poll_def Let_def
        example_ui_def New_fields)
  then obtain ui1 where a: "verifyConnection quote_printable ?e example_ui = Inr ui1"
    "Current ui1 = Some 1" "slot ui1 = [1]" "Grid (panels ui1 1) = 1" "Grid (panels ui1 0) = 0"
    by blast
  have ok: "slot_ok ui1"
    using a by (simp add: slot_ok_def)
  show ?thesis
    using Add_swaps_in_order [OF a(2), of 0] a ok by auto
qed

subsection \<open>Going back\<close>

text \<open>
  C7. When the current panel has a parent, \<open>GoHistory\<close> makes that parent the current
  panel: the same reference the panel's \<open>Parent\<close> holds. No panel object is built or
  changed on the way: the store of panels and its allocation mark stay as they were.
\<close>

theorem GoHistory_installs_parent:
  assumes "Current ui = Some c" and "Parent (panels ui c) = Some p"
  shows "\<exists>ui'. GoHistory ui = Inr ui' \<and> Current ui' = Some p \<and>
           panels ui' = panels ui \<and> next_ref ui' = next_ref ui \<and>
           filter is_swap (new_events ui ui') =
             [GridRemove (Grid (panels ui c)), GridAttach (Grid (panels ui p))]"
proof -
  have g: "GoHistory ui = Add (Some p) ui"
    using assms by (simp add: GoHistory_def)
  obtain ui' where a: "Add (Some p) ui = Inr ui'"
    by (simp add: Add_Some)
  have "new_events ui ui' =
          [GridRemove (Grid (panels ui c)), PanelHide c,
           PanelShow p, GridAttach (Grid (panels ui p)), GridShowAll]"
    using Add_events [OF a] assms by simp
  then show ?thesis
    using g a Add_fields [OF a] by simp
qed

theorem GoHistory_installs_parent_witness:
  "\<exists>ui'. GoHistory
           (example_ui\<lparr>Current := Some 1, slot := [1], next_ref := 2,
              panels := (panels example_ui)(1 := \<lparr>kind = OtherPanel, Grid = 1, Parent = Some 0\<rparr>)\<rparr>) =
           Inr ui' \<and>
         Current ui' = Some 0 \<and> next_ref ui' = 2 \<and>
         panels ui' 1 = \<lparr>kind = OtherPanel, Grid = 1, Parent = Some 0\<rparr> \<and>
         kind (panels ui' 0) = SplashPanel"
  using GoHistory_installs_parent [of
      "example_ui\<lparr>Current := Some 1, slot := [1], next_ref := 2,
         panels := (panels example_ui)(1 := \<lparr>kind = OtherPanel, Grid = 1, Parent = Some 0\<rparr>)\<rparr>"
      1 0]
  by (auto simp add: example_ui_def New_fields)

subsection \<open>Classification precedence\<close>

text \<open>
  C2. After a successful status query the classification takes the first case that
  matches, in the order operational, printing, error or offline, connecting: an
  operational state gives mode idle whatever else it reports, a printing state that is
  not operational gives mode printing, and every other state gives mode splash; the
  connect command is issued exactly in the error-or-offline case, and the splash label
  takes the state's label exactly in the connecting case. In particular a state that is
  both operational and printing gives mode idle.
\<close>

theorem classification_precedence:
  assumes "query_result env = Inr st"
  shows "\<exists>ui'. verifyConnection quote env ui = Inr ui' \<and>
           UIState ui' = (if IsOperational st then ''idle''
                          else if IsPrinting st then ''printing''
                          else ''splash'') \<and>
           State ui' = Some st \<and>
           (ConnectRequest \<in> set (new_events ui ui') \<longleftrightarrow>
              \<not> IsOperational st \<and> \<not> IsPrinting st \<and> (IsError st \<or> IsOffline st)) \<and>
           Label ui' =
             (if IsOperational st \<or> IsPrinting st then Label ui
              else if IsError st \<or> IsOffline st
              then (case connect_result env of None \<Rightarrow> Label ui
                    | Some e \<Rightarrow> ''Error connecting to printer: '' @ e)
              else if IsConnecting st then label st
              else Label ui) \<and>
           (IsOperational st \<and> IsPrinting st \<longrightarrow> UIState ui' = ''idle'')"
proof -
  obtain ui' where v: "verifyConnection quote env ui = Inr ui'"
    using verifyConnection_total by blast
  let ?u0 = "sdNotify (notify_result env) ''WATCHDOG=1'' ui"
  obtain es where es: "events ui' = events (snd (poll quote env ?u0)) @ es"
    "\<forall>e\<in>set es. is_panel_event e \<or> (\<exists>s. e = LogInfo s)"
    using verifyConnection_events [OF v] by blast
  have mode: "UIState ui' = (if IsOperational st then ''idle''
      else if IsPrinting st then ''printing'' else ''splash'')"
    using verifyConnection_fields(1) [OF v] assms by (simp add: poll_mode)
  have st: "State ui' = Some st"
    using verifyConnection_fields(3) [OF v] poll_success_State [OF assms] by simp
  have lab: "Label ui' =
      (if IsOperational st \<or> IsPrinting st then Label ui
       else if IsError st \<or> IsOffline st
       then (case connect_result env of None \<Rightarrow> Label ui
             | Some e \<Rightarrow> ''Error connecting to printer: '' @ e)
       else if IsConnecting st then label st
       else Label ui)"
    using verifyConnection_fields(2) [OF v] poll_success_Label [OF assms, of quote ui] by simp
  have "new_events ui ui' =
      (case notify_result env of None \<Rightarrow> [SdNotify ''WATCHDOG=1'']
       | Some err \<Rightarrow> [SdNotify ''WATCHDOG=1'',
                      LogError (''Error sending notification: '' @ err)]) @
      ConnectionRequest #
      (if IsOperational st \<or> IsPrinting st then []
       else if IsError st \<or> IsOffline st
       then ConnectRequest #
            (case connect_result env of None \<Rightarrow> []
             | Some e \<Rightarrow> [SetText (''Error connecting to printer: '' @ e)])
       else if IsConnecting st then [SetText (label st)] else []) @ es"
    using es(1) poll_success_events [OF assms, of quote ?u0]
    by (simp add: sdNotify_events new_events_def)
  then have con: "ConnectRequest \<in> set (new_events ui ui') \<longleftrightarrow>
      \<not> IsOperational st \<and> \<not> IsPrinting st \<and> (IsError st \<or> IsOffline st)"
    using install_event_facts(1) [OF es(2)] by (auto split: option.splits)
  show ?thesis
    using v mode st lab con by simp
qed

theorem classification_precedence_witness:
  "\<exists>ui'. verifyConnection quote_printable
           (example_tick (Inr (example_state ''Printing'' True True True False True)) None
              (5 * Second)) example_ui = Inr ui' \<and>
         UIState ui' = ''idle'' \<and> Label ui' = ''Initializing'' \<and>
         ConnectRequest \<notin> set (new_events example_ui ui')"
  using classification_precedence [of
      "example_tick (Inr (example_state ''Printing'' True True True False True)) None (5 * Second)"
      "example_state ''Printing'' True True True False True" quote_printable example_ui]
  by auto

subsection \<open>Repeated ticks in the same mode\<close>




subsection \<open>The initial mode\<close>

text \<open>
  C5 (amended). The mode recorded by \<open>New\<close> is the empty string, which is none of the
  three modes, and no panel is current. Consequently the first tick always finds the
  classified mode different from the recorded one: a first tick whose classified target
  mode is splash installs the splash panel built by \<open>New\<close> (one attach, no detach) and
  records the mode splash.
\<close>

theorem first_tick_installs_panel:
  assumes "fst (poll quote env (New ne endpoint key w h)) = ''splash''"
  shows "UIState (New ne endpoint key w h) = '''' \<and>
         Current (New ne endpoint key w h) = None \<and>
         swap_count (New ne endpoint key w h) = 0 \<and>
         (\<exists>ui'. verifyConnection quote env (New ne endpoint key w h) = Inr ui' \<and>
            UIState ui' = ''splash'' \<and>
            Current ui' = Some (splash (New ne endpoint key w h)) \<and>
            filter is_panel_event (new_events (New ne endpoint key w h) ui') =
              [PanelShow (splash (New ne endpoint key w h)),
               GridAttach (Grid (panels (New ne endpoint key w h)
                                   (splash (New ne endpoint key w h)))),
               GridShowAll] \<and>
            swap_count ui' = 1 \<and>
            slot ui' = [Grid (panels (New ne endpoint key w h)
                                (splash (New ne endpoint key w h)))])"
proof -
  let ?ui = "New ne endpoint key w h"
  let ?u0 = "sdNotify (notify_result env) ''WATCHDOG=1'' ?ui"
  let ?r = "poll quote env ?u0"
  have m: "fst ?r = ''splash''"
    using assms poll_mode_indep [of quote env ?u0 quote ?ui] by simp
  obtain u where u: "install ''splash'' (snd ?r) = Inr u"
    using install_total by blast
  have v: "verifyConnection quote env ?ui = Inr (u\<lparr>UIState := ''splash''\<rparr>)"
    using m u by (simp add: verifyConnection_unfold Let_def New_fields)
  obtain es where es: "events (snd ?r) = events ?ui @ SdNotify ''WATCHDOG=1'' # es"
    "filter is_panel_event es = []"
    using tick_events_prefix by blast
  have ev: "events u = events ?ui @ SdNotify ''WATCHDOG=1'' # es @
      [PanelShow 0, GridAttach 0, GridShowAll]"
    using install_splash(4) [OF u] es(1) by (simp add: New_fields)
  have sw0: "swap_count ?ui = 0"
    by (simp add: swap_count_def New_events split: option.split)
  have p: "filter is_panel_event (new_events ?ui (u\<lparr>UIState := ''splash''\<rparr>)) =
      [PanelShow 0, GridAttach 0, GridShowAll]"
    using ev es(2) by (simp add: new_events_def)
  have "filter is_swap es = []"
    using no_panel_no_swap [OF es(2)] .
  then have sw1: "swap_count (u\<lparr>UIState := ''splash''\<rparr>) = 1"
    using ev sw0 by (simp add: swap_count_def)
  have sl: "slot (u\<lparr>UIState := ''splash''\<rparr>) = [0]"
    using install_splash(5) [OF u] by (simp add: New_fields)
  have cur: "Current (u\<lparr>UIState := ''splash''\<rparr>) = Some 0"
    using install_splash(1) [OF u] by (simp add: New_fields)
  show ?thesis
    using v sw0 p sw1 sl cur by (simp add: New_fields)
qed

theorem first_tick_installs_panel_witness:
  "\<exists>ui'. verifyConnection quote_printable (example_tick (Inl ''timeout'') None Second)
           example_ui = Inr ui' \<and>
         UIState ui' = ''splash'' \<and> Current ui' = Some 0 \<and> swap_count ui' = 1 \<and>
         slot ui' = [0]"
proof -
  have h: "fst (poll quote_printable (example_tick (Inl ''timeout'') None Second)
      (New example_new_env ''http://host:80'' ''secret'' 800 480)) = ''splash''"
    by (simp add: poll_mode)
  show ?thesis
    using first_tick_installs_panel [OF h]
    by (auto simp add: example_ui_def New_fields)
qed

text \<open>
  The mode recorded by \<open>New\<close> is not splash, and a first tick whose query fails, with
  target mode splash, swaps a panel in: it attaches the splash panel.
\<close>

theorem initial_mode_counterexample:
  "UIState example_ui \<noteq> ''splash'' \<and>
   swap_count example_ui = 0 \<and>
   map_sum id swap_count
     (verifyConnection quote_printable (example_tick (Inl ''timeout'') None Second) example_ui) =
     Inr 1 \<and>
   map_sum id Current
     (verifyConnection quote_printable (example_tick (Inl ''timeout'') None Second) example_ui) =
     Inr (Some 0)"
  by (simp add: verifyConnection_unfold install_unfold Add_Some poll_def Let_def swap_count_def
      sdNotify_events Since_def Second_def errMercyPeriod_def maxDuration_def minDuration_def)

subsection \<open>The grace period for query failures\<close>

text \<open>
  C3 (amended). Let a status query fail in a state reached by any run of ticks from a
  state \<open>ui0\<close>, and let \<open>d\<close> be the time since \<open>started ui0\<close>. If \<open>d\<close> is more than 30
  seconds the splash label becomes the formatted error; if \<open>d\<close> is 30 seconds or less,
  the boundary included, the label is left as it is. In both cases the target mode is
  splash. The start of the window is the time \<open>New\<close> recorded; no tick and no panel
  navigation changes it.
\<close>

theorem query_failure_mercy_period:
  assumes "ticks quote envs ui0 = Inr ui" and "query_result env = Inl err"
  shows "\<exists>ui'. verifyConnection quote env ui = Inr ui' \<and>
           UIState ui' = ''splash'' \<and>
           Label ui' = (if Since (now env) (started ui0) > 30 * Second
                        then errToUser quote ui err else Label ui) \<and>
           started ui' = started ui0 \<and>
           (\<forall>p u. Add p ui' = Inr u \<longrightarrow> started u = started ui0) \<and>
           (\<forall>u. GoHistory ui' = Inr u \<longrightarrow> started u = started ui0) \<and>
           started (New ne endpoint key w h) = clock ne"
proof -
  obtain ui' where v: "verifyConnection quote env ui = Inr ui'"
    using verifyConnection_total by blast
  have s: "started ui = started ui0"
    using ticks_started [OF assms(1)] .
  have "UIState ui' = ''splash''"
    using verifyConnection_fields(1) [OF v] assms(2) by (simp add: poll_mode)
  moreover have "Label ui' = (if Since (now env) (started ui0) > 30 * Second
      then errToUser quote ui err else Label ui)"
    using verifyConnection_fields(2) [OF v] poll_failure_Label [OF assms(2), of quote ui] s
    by (simp add: errMercyPeriod_def)
  moreover have s': "started ui' = started ui0"
    using verifyConnection_fields(4) [OF v] s by simp
  moreover have "started u = started ui0" if "Add p ui' = Inr u" for p u
    using Add_started [OF that] s' by simp
  moreover have "started u = started ui0" if "GoHistory ui' = Inr u" for u
    using GoHistory_started [OF that] s' by simp
  ultimately show ?thesis
    using v New_started by blast
qed

theorem query_failure_mercy_period_witness:
  "\<exists>ui1 ui2 ui3.
     ticks quote_printable
       [example_tick (Inr (example_state ''Operational'' True False False False False)) None
          (5 * Second)] example_ui = Inr ui1 \<and>
     verifyConnection quote_printable (example_tick (Inl ''timeout'') None (30 * Second)) ui1 =
       Inr ui2 \<and>
     Label ui2 = ''Initializing'' \<and> UIState ui2 = ''splash'' \<and>
     verifyConnection quote_printable (example_tick (Inl ''timeout'') None (30 * Second + 1)) ui1 =
       Inr ui3 \<and>
     Label ui3 = ''Unexpected error: timeout'' \<and> UIState ui3 = ''splash'' \<and> started ui3 = 0"
proof -
  let ?e = "example_tick (Inr (example_state ''Operational'' True False False False False))
      None (5 * Second)"
  obtain ui0 where a: "verifyConnection quote_printable ?e example_ui = Inr ui0"
    using verifyConnection_total by blast
  then have t: "ticks quote_printable [?e] example_ui = Inr ui0"
    by simp
  have l: "Label ui0 = ''Initializing''"
    using verifyConnection_fields(2) [OF a] by (simp add: poll_success_Label [of _ "example_state ''Operational'' True False False False False"])
  have q: "query_result (example_tick (Inl ''timeout'') None n) = Inl ''timeout''" for n
    by simp
  have c: "\<not> Contains ''timeout'' ''connection refused''"
    by simp
  have s: "Since (30 * Second) 0 = 30 * Second" "Since (30 * Second + 1) 0 = 30 * Second + 1"
    by (simp_all add: Since_def Second_def maxDuration_def minDuration_def)
  obtain ui2 where b:
    "verifyConnection quote_printable (example_tick (Inl ''timeout'') None (30 * Second)) ui0 =
       Inr ui2"
    "UIState ui2 = ''splash''" "Label ui2 = ''Initializing''"
    using query_failure_mercy_period [OF t q, of "30 * Second" example_new_env "[]" "[]" 0 0] l s
    by auto
  obtain ui3 where d:
    "verifyConnection quote_printable (example_tick (Inl ''timeout'') None (30 * Second + 1)) ui0 =
       Inr ui3"
    "UIState ui3 = ''splash''" "Label ui3 = ''Unexpected error: timeout''" "started ui3 = 0"
    using query_failure_mercy_period [OF t q, of "30 * Second + 1" example_new_env "[]" "[]" 0 0]
      c s
    by (auto simp add: errToUser_def simp del: Contains.simps)
  show ?thesis
    using t b d by blast
qed

text \<open>
  At exactly 30 seconds after the start the label is not overwritten: the comparison of
  line 143 is strict.
\<close>

theorem mercy_period_boundary_counterexample:
  "Since (30 * Second) (started example_ui) = 30 * Second \<and>
   map_sum id Label
     (verifyConnection quote_printable (example_tick (Inl ''timeout'') None (30 * Second))
        example_ui) = Inr ''Initializing'' \<and>
   errToUser quote_printable example_ui ''timeout'' = ''Unexpected error: timeout''"
proof -
  let ?e = "example_tick (Inl ''timeout'') None (30 * Second)"
  obtain ui' where v: "verifyConnection quote_printable ?e example_ui = Inr ui'"
    using verifyConnection_total by blast
  have s: "Since (30 * Second) (started example_ui) = 30 * Second"
    by (simp add: Since_def Second_def maxDuration_def minDuration_def)
  have "Label ui' = ''Initializing''"
    using verifyConnection_fields(2) [OF v] poll_failure_Label [of ?e "''timeout''" quote_printable example_ui] s
    by (simp add: errMercyPeriod_def)
  moreover have "errToUser quote_printable example_ui ''timeout'' = ''Unexpected error: timeout''"
    by (simp add: errToUser_def)
  ultimately show ?thesis
    using v s by simp
qed

subsection \<open>Failed connect attempts\<close>

text \<open>
  C4. On a tick whose status query succeeds with a state that the classification takes as
  error or offline (it is error or offline, and neither operational nor printing), the connect
  command is issued once. The target mode is splash. If the command fails, the splash label
  is set in the same tick to \<^verbatim>\<open>Error connecting to printer: \<close> followed by the error;
  the reading of the clock plays no part, so no grace period applies on this path.
\<close>

theorem connect_failure_shown_at_once:
  assumes "query_result env = Inr st" and "\<not> IsOperational st" and "\<not> IsPrinting st"
    and "IsError st \<or> IsOffline st"
  shows "\<exists>ui'. verifyConnection quote env ui = Inr ui' \<and>
           count_list (new_events ui ui') ConnectRequest = 1 \<and>
           UIState ui' = ''splash'' \<and>
           (case connect_result env of
              None \<Rightarrow> Label ui' = Label ui
            | Some e \<Rightarrow> Label ui' = ''Error connecting to printer: '' @ e \<and>
                        count_list (new_events ui ui')
                          (SetText (''Error connecting to printer: '' @ e)) = 1) \<and>
           (\<forall>n. verifyConnection quote (env\<lparr>now := n\<rparr>) ui = Inr ui')"
proof -
  obtain ui' where v: "verifyConnection quote env ui = Inr ui'"
    using verifyConnection_total by blast
  let ?u0 = "sdNotify (notify_result env) ''WATCHDOG=1'' ui"
  obtain es where es: "events ui' = events (snd (poll quote env ?u0)) @ es"
    "\<forall>e\<in>set es. is_panel_event e \<or> (\<exists>s. e = LogInfo s)"
    using verifyConnection_events [OF v] by blast
  have mode: "UIState ui' = ''splash''"
    using verifyConnection_fields(1) [OF v] assms by (simp add: poll_mode)
  have lab: "Label ui' = (case connect_result env of None \<Rightarrow> Label ui
      | Some e \<Rightarrow> ''Error connecting to printer: '' @ e)"
    using verifyConnection_fields(2) [OF v] poll_success_Label [OF assms(1), of quote ui] assms
    by simp
  have ev: "new_events ui ui' =
      (case notify_result env of None \<Rightarrow> [SdNotify ''WATCHDOG=1'']
       | Some err \<Rightarrow> [SdNotify ''WATCHDOG=1'',
                      LogError (''Error sending notification: '' @ err)]) @
      ConnectionRequest # ConnectRequest #
      (case connect_result env of None \<Rightarrow> []
       | Some e \<Rightarrow> [SetText (''Error connecting to printer: '' @ e)]) @ es"
    using es(1) poll_success_events [OF assms(1), of quote ?u0] assms(2-4)
    by (simp add: sdNotify_events new_events_def)
  have c1: "count_list (new_events ui ui') ConnectRequest = 1"
    using install_event_facts(2) [OF es(2)] by (simp add: ev split: option.split)
  have c2: "count_list (new_events ui ui') (SetText (''Error connecting to printer: '' @ e)) = 1"
    if "connect_result env = Some e" for e
    using install_event_facts(3) [OF es(2)] that
    by (simp add: ev count_list_0_iff split: option.split)
  have "poll quote (env\<lparr>now := n\<rparr>) u = poll quote env u" for n u
    using assms(1) by (simp add: poll_def connect_def Let_def)
  then have clock: "verifyConnection quote (env\<lparr>now := n\<rparr>) ui = Inr ui'" for n
    using v by (simp add: verifyConnection_def)
  show ?thesis
    using v c1 mode lab c2 clock by (auto split: option.split)
qed

theorem connect_failure_shown_at_once_witness:
  "\<exists>ui'. verifyConnection quote_printable
           (example_tick (Inr (example_state ''Error'' False False True False False))
              (Some ''dial tcp: connection refused'') Second) example_ui = Inr ui' \<and>
         UIState ui' = ''splash'' \<and>
         Label ui' = ''Error connecting to printer: dial tcp: connection refused'' \<and>
         count_list (new_events example_ui ui') ConnectRequest = 1"
  using connect_failure_shown_at_once [of
      "example_tick (Inr (example_state ''Error'' False False True False False))
         (Some ''dial tcp: connection refused'') Second"
      "example_state ''Error'' False False True False False" quote_printable example_ui]
  by auto

subsection \<open>Error messages for the user\<close>

text \<open>
  C8. \<open>errToUser\<close> computes its result from the error text, the endpoint and whether the
  key is empty. For an error whose text contains \<^verbatim>\<open>connection refused\<close> the result is
  the connection message, which contains the endpoint as the verb \<^verbatim>\<open>%q\<close> prints it and
  \<^verbatim>\<open>(Key: true)\<close> or \<^verbatim>\<open>(Key: false)\<close> according to whether a key was supplied. For
  every other error the result is \<^verbatim>\<open>Unexpected error: \<close> followed by the error text.
\<close>

theorem errToUser_cases:
  "(Contains err ''connection refused'' \<longrightarrow>
      errToUser quote ui err =
        ''Unable to connect to '' @ quote (Endpoint (Printer ui)) @
        (if APIKey (Printer ui) = '''' then '' (Key: false)'' else '' (Key: true)'') @
        '', \<newline>maybe OctoPrint not running?'' \<and>
      Contains (errToUser quote ui err) (quote (Endpoint (Printer ui))) \<and>
      Contains (errToUser quote ui err)
        (if APIKey (Printer ui) = '''' then '' (Key: false)'' else '' (Key: true)'')) \<and>
   (\<not> Contains err ''connection refused'' \<longrightarrow>
      errToUser quote ui err = ''Unexpected error: '' @ err \<and>
      Contains (errToUser quote ui err) err)"
proof -
  let ?k = "if APIKey (Printer ui) = '''' then '' (Key: false)'' else '' (Key: true)''"
  let ?tail = "'', \<newline>maybe OctoPrint not running?''"
  have eq: "errToUser quote ui err =
      ''Unable to connect to '' @ quote (Endpoint (Printer ui)) @ ?k @ ?tail"
    if "Contains err ''connection refused''"
    using that by (simp add: errToUser_def fmt_bool_def)
  have c1: "Contains (''Unable to connect to '' @ quote (Endpoint (Printer ui)) @ (?k @ ?tail))
      (quote (Endpoint (Printer ui)))"
    by (rule Contains_append)
  have c2: "Contains ((''Unable to connect to '' @ quote (Endpoint (Printer ui))) @ ?k @ ?tail) ?k"
    by (rule Contains_append)
  have other: "errToUser quote ui err = ''Unexpected error: '' @ err"
    if "\<not> Contains err ''connection refused''"
    using that by (simp add: errToUser_def)
  have c3: "Contains (''Unexpected error: '' @ err) err"
    by (rule Contains_append_right)
  show ?thesis
    using eq c1 c2 other c3 by (simp del: Contains.simps)
qed

theorem errToUser_cases_witness:
  "errToUser quote_printable example_ui ''dial tcp 10.0.0.1:80: connect: connection refused'' =
     ''Unable to connect to '' @ [CHR 0x22] @ ''http://host:80'' @ [CHR 0x22] @
     '' (Key: true), \<newline>maybe OctoPrint not running?'' \<and>
   Contains (errToUser quote_printable example_ui
               ''dial tcp 10.0.0.1:80: connect: connection refused'') ''http://host:80'' \<and>
   \<not> Contains (errToUser quote_printable example_ui
                 ''dial tcp 10.0.0.1:80: connect: connection refused'') ''secret'' \<and>
   errToUser quote_printable example_ui ''timeout'' = ''Unexpected error: timeout''"
proof -
  have r: "Contains ''dial tcp 10.0.0.1:80: connect: connection refused'' ''connection refused''"
    by simp
  have t: "\<not> Contains ''timeout'' ''connection refused''"
    by simp
  have q: "quote_printable ''http://host:80'' = [CHR 0x22] @ ''http://host:80'' @ [CHR 0x22]"
    by (simp add: quote_printable_def quote_char_def)
  have e: "errToUser quote_printable example_ui
      ''dial tcp 10.0.0.1:80: connect: connection refused'' =
      ''Unable to connect to '' @ [CHR 0x22] @ ''http://host:80'' @ [CHR 0x22] @
      '' (Key: true), \<newline>maybe OctoPrint not running?''"
    using errToUser_cases [of "''dial tcp 10.0.0.1:80: connect: connection refused''"
        quote_printable example_ui] r q
    by (simp del: Contains.simps)
  have f: "errToUser quote_printable example_ui ''timeout'' = ''Unexpected error: timeout''"
    using errToUser_cases [of "''timeout''" quote_printable example_ui] t
    by (simp del: Contains.simps)
  show ?thesis
    unfolding e f by simp
qed

subsection \<open>The key in error messages\<close>

text \<open>
  C9 (amended). \<open>errToUser\<close> reads of the key only whether it is empty: two
  configurations with the same endpoint whose keys are both empty or both non-empty give
  the same result for the same error, whatever the keys are.
\<close>

theorem errToUser_key_presence_only:
  assumes "Endpoint (Printer ui1) = Endpoint (Printer ui2)"
    and "(APIKey (Printer ui1) = '''') = (APIKey (Printer ui2) = '''')"
  shows "errToUser quote ui1 err = errToUser quote ui2 err"
  using assms by (simp add: errToUser_def)

theorem errToUser_key_presence_only_witness:
  "errToUser quote_printable example_ui ''dial tcp: connection refused'' =
   errToUser quote_printable
     (example_ui\<lparr>Printer := \<lparr>Endpoint = ''http://host:80'', APIKey = ''another key''\<rparr>\<rparr>)
     ''dial tcp: connection refused''"
  using errToUser_key_presence_only [of example_ui
      "example_ui\<lparr>Printer := \<lparr>Endpoint = ''http://host:80'', APIKey = ''another key''\<rparr>\<rparr>"
      quote_printable "''dial tcp: connection refused''"]
  by simp

text \<open>
  The result can contain the key: the fallback message repeats the error text, whatever
  it holds.
\<close>

theorem errToUser_output_contains_key_counterexample:
  "APIKey (Printer example_ui) = ''secret'' \<and>
   Contains (errToUser quote_printable example_ui ''401 Unauthorized: bad API key secret'')
     ''secret''"
  by (simp add: errToUser_def)

end
